theory Spec2Isabelle
  imports Complex_Main
begin

section \<open>JavaScript values\<close>

text \<open>
  The upstream payload (\<^verbatim>\<open>result.data\<close>), the argument bag of a tool call and the
  fields of a thrown error are untyped JavaScript values (\<^verbatim>\<open>any\<close>). A number is NaN or
  a finite value; the infinities cannot occur in a JSON payload and are left out. An
  object is the list of its own properties; the first binding of a key is its value.
\<close>

datatype jsnumber = NaN | Fin rat

datatype jsval =
    JUndefined
  | JNull
  | JBool bool
  | JNum jsnumber
  | JStr string
  | JArr "jsval list"
  | JObj "(string \<times> jsval) list"

text \<open>ToBoolean: what \<^verbatim>\<open>if (v)\<close>, \<^verbatim>\<open>!v\<close>, \<^verbatim>\<open>a || b\<close> and \<^verbatim>\<open>filter(Boolean)\<close> test.\<close>

fun truthy :: "jsval \<Rightarrow> bool" where
  "truthy JUndefined = False"
| "truthy JNull = False"
| "truthy (JBool b) = b"
| "truthy (JNum NaN) = False"
| "truthy (JNum (Fin r)) = (r \<noteq> 0)"
| "truthy (JStr s) = (s \<noteq> [])"
| "truthy (JArr xs) = True"
| "truthy (JObj fs) = True"

fun nullish :: "jsval \<Rightarrow> bool" where
  "nullish JUndefined = True"
| "nullish JNull = True"
| "nullish v = False"

fun isArray :: "jsval \<Rightarrow> bool" where
  "isArray (JArr xs) = True"
| "isArray v = False"

fun elements :: "jsval \<Rightarrow> jsval list" where
  "elements (JArr xs) = xs"
| "elements v = []"

text \<open>
  \<^verbatim>\<open>v.k\<close> on a value that is neither null nor undefined. None of the names this program
  reads (images, image, url, output, video, audio, model, mesh, glb, seed, detail, ...)
  is a property of a string, number, boolean or array, or inherited from
  \<^verbatim>\<open>Object.prototype\<close>, so only an object's own properties answer.
\<close>

fun member :: "jsval \<Rightarrow> string \<Rightarrow> jsval" where
  "member (JObj fs) k = (case map_of fs k of Some v \<Rightarrow> v | None \<Rightarrow> JUndefined)"
| "member v k = JUndefined"

text \<open>\<^verbatim>\<open>v?.k\<close>: undefined when \<^verbatim>\<open>v\<close> is null or undefined.\<close>

definition opt_member :: "jsval \<Rightarrow> string \<Rightarrow> jsval" where
  "opt_member v k = (if nullish v then JUndefined else member v k)"

text \<open>\<^verbatim>\<open>a || b\<close>\<close>

definition js_or :: "jsval \<Rightarrow> jsval \<Rightarrow> jsval" where
  "js_or a b = (if truthy a then a else b)"

definition newline :: string where
  "newline = [CHR 0x0A]"

fun join_with :: "string \<Rightarrow> string list \<Rightarrow> string" where
  "join_with sep [] = []"
| "join_with sep [x] = x"
| "join_with sep (x # y # ys) = x @ sep @ join_with sep (y # ys)"

text \<open>
  ToString, as a template literal and \<^verbatim>\<open>Array.prototype.join\<close> apply it. The text of
  a finite number is the engine's (\<^verbatim>\<open>Number::toString\<close>) and is the parameter \<open>ns\<close>.
\<close>

fun to_string :: "(rat \<Rightarrow> string) \<Rightarrow> jsval \<Rightarrow> string" where
  "to_string ns JUndefined = ''undefined''"
| "to_string ns JNull = ''null''"
| "to_string ns (JBool b) = (if b then ''true'' else ''false'')"
| "to_string ns (JNum NaN) = ''NaN''"
| "to_string ns (JNum (Fin r)) = ns r"
| "to_string ns (JStr s) = s"
| "to_string ns (JArr xs) =
     join_with '','' (map (\<lambda>x. if nullish x then [] else to_string ns x) xs)"
| "to_string ns (JObj fs) = ''[object Object]''"

section \<open>Thrown errors\<close>

text \<open>
  What \<^verbatim>\<open>catch (error: any)\<close> receives is an Error object: its name and message, and
  the fields \<^verbatim>\<open>status\<close>, \<^verbatim>\<open>code\<close> and \<^verbatim>\<open>body\<close> that the upstream client and Node's
  network layer attach (undefined when absent).
\<close>

record js_error =
  err_name :: string
  err_message :: string
  err_status :: jsval
  err_code :: jsval
  err_body :: jsval

text \<open>\<^verbatim>\<open>new Error(msg)\<close>\<close>

definition new_Error :: "string \<Rightarrow> js_error" where
  "new_Error msg =
     \<lparr>err_name = ''Error'', err_message = msg, err_status = JUndefined,
      err_code = JUndefined, err_body = JUndefined\<rparr>"

fun type_name :: "jsval \<Rightarrow> string" where
  "type_name JNull = ''null''"
| "type_name v = ''undefined''"

text \<open>The TypeError of reading property \<open>k\<close> of null or undefined (V8's wording).\<close>

definition cannot_read :: "jsval \<Rightarrow> string \<Rightarrow> js_error" where
  "cannot_read v k =
     \<lparr>err_name = ''TypeError'',
      err_message = ''Cannot read properties of '' @ type_name v @ '' (reading '' @ [CHR 0x27]
        @ k @ [CHR 0x27] @ '')'',
      err_status = JUndefined, err_code = JUndefined, err_body = JUndefined\<rparr>"

section \<open>Result extraction\<close>

text \<open>
  \<^verbatim>\<open>extractImageUrls\<close> (part_000, lines 46-55). \<^verbatim>\<open>data.images\<close> throws when
  \<^verbatim>\<open>data\<close> is null or undefined; in the \<^verbatim>\<open>map\<close> callback \<^verbatim>\<open>img.url\<close> throws at the
  first entry that is null or undefined, before \<^verbatim>\<open>filter(Boolean)\<close> runs.
\<close>

definition image_entry :: "jsval \<Rightarrow> jsval" where
  "image_entry img = js_or (member img ''url'') img"

definition extractImageUrls :: "jsval \<Rightarrow> js_error + jsval list" where
  "extractImageUrls data =
     (if nullish data then Inl (cannot_read data ''images'')
      else if truthy (member data ''images'') \<and> isArray (member data ''images'') then
        (case find nullish (elements (member data ''images'')) of
           Some bad \<Rightarrow> Inl (cannot_read bad ''url'')
         | None \<Rightarrow> Inr (filter truthy (map image_entry (elements (member data ''images'')))))
      else if truthy (opt_member (member data ''image'') ''url'') then
        Inr [member (member data ''image'') ''url'']
      else if truthy (member data ''image_url'') then Inr [member data ''image_url'']
      else if truthy (opt_member (member data ''output'') ''url'') then
        Inr [member (member data ''output'') ''url'']
      else if truthy (member data ''url'') then Inr [member data ''url'']
      else Inr [])"

text \<open>\<^verbatim>\<open>extractVideoUrl\<close> (lines 58-64)\<close>

definition extractVideoUrl :: "jsval \<Rightarrow> js_error + jsval" where
  "extractVideoUrl data =
     (if nullish data then Inl (cannot_read data ''video'')
      else if truthy (opt_member (member data ''video'') ''url'') then
        Inr (member (member data ''video'') ''url'')
      else if truthy (member data ''video_url'') then Inr (member data ''video_url'')
      else if truthy (opt_member (member data ''output'') ''url'') then
        Inr (member (member data ''output'') ''url'')
      else if truthy (member data ''url'') then Inr (member data ''url'')
      else Inr JNull)"

text \<open>\<^verbatim>\<open>extractAudioUrl\<close> (lines 67-74)\<close>

definition extractAudioUrl :: "jsval \<Rightarrow> js_error + jsval" where
  "extractAudioUrl data =
     (if nullish data then Inl (cannot_read data ''audio'')
      else if truthy (opt_member (member data ''audio'') ''url'') then
        Inr (member (member data ''audio'') ''url'')
      else if truthy (member data ''audio_url'') then Inr (member data ''audio_url'')
      else if truthy (opt_member (member data ''audio_file'') ''url'') then
        Inr (member (member data ''audio_file'') ''url'')
      else if truthy (opt_member (member data ''output'') ''url'') then
        Inr (member (member data ''output'') ''url'')
      else if truthy (member data ''url'') then Inr (member data ''url'')
      else Inr JNull)"

text \<open>\<^verbatim>\<open>extract3DUrl\<close> (lines 77-85)\<close>

definition extract3DUrl :: "jsval \<Rightarrow> js_error + jsval" where
  "extract3DUrl data =
     (if nullish data then Inl (cannot_read data ''model'')
      else if truthy (opt_member (member data ''model'') ''url'') then
        Inr (member (member data ''model'') ''url'')
      else if truthy (member data ''model_url'') then Inr (member data ''model_url'')
      else if truthy (opt_member (member data ''mesh'') ''url'') then
        Inr (member (member data ''mesh'') ''url'')
      else if truthy (opt_member (member data ''output'') ''url'') then
        Inr (member (member data ''output'') ''url'')
      else if truthy (opt_member (member data ''glb'') ''url'') then
        Inr (member (member data ''glb'') ''url'')
      else if truthy (member data ''url'') then Inr (member data ''url'')
      else Inr JNull)"

section \<open>Configuration\<close>

text \<open>\<^verbatim>\<open>Config\<close> (config.ts, lines 1-5)\<close>

record config =
  apiKey :: string
  timeout :: jsnumber
  outputDir :: string

text \<open>
  \<^verbatim>\<open>parseInt(s, 10)\<close>: leading white space is skipped, one sign is read, then the
  longest run of decimal digits; no digit gives NaN. The value is the mathematical
  integer of the digits: rounding it to a double keeps its sign, which is all
  \<^verbatim>\<open>loadConfig\<close> looks at. White space is the ASCII part of ECMAScript's.
\<close>

definition is_space :: "char \<Rightarrow> bool" where
  "is_space c = (c \<in> set [CHR 0x09, CHR 0x0A, CHR 0x0B, CHR 0x0C, CHR 0x0D, CHR 0x20])"

definition is_digit :: "char \<Rightarrow> bool" where
  "is_digit c = (48 \<le> (of_char c :: nat) \<and> (of_char c :: nat) \<le> 57)"

definition digit_value :: "char \<Rightarrow> int" where
  "digit_value c = int (of_char c) - 48"

definition digits_value :: "string \<Rightarrow> int" where
  "digits_value ds = foldl (\<lambda>acc c. 10 * acc + digit_value c) 0 ds"

definition parseInt :: "string \<Rightarrow> jsnumber" where
  "parseInt str =
     (let s = dropWhile is_space str;
          sign = (case s of c # r \<Rightarrow> if c = CHR ''-'' then - 1 else 1 | [] \<Rightarrow> 1);
          body = (case s of c # r \<Rightarrow> if c = CHR ''-'' \<or> c = CHR ''+'' then r else s | [] \<Rightarrow> s);
          ds = takeWhile is_digit body
      in if ds = [] then NaN else Fin (of_int (sign * digits_value ds)))"

text \<open>\<^verbatim>\<open>n <= 0\<close>: false when \<^verbatim>\<open>n\<close> is NaN.\<close>

fun le_zero :: "jsnumber \<Rightarrow> bool" where
  "le_zero NaN = False"
| "le_zero (Fin r) = (r \<le> 0)"

text \<open>\<^verbatim>\<open>n * k\<close>\<close>

fun js_times :: "jsnumber \<Rightarrow> rat \<Rightarrow> jsnumber" where
  "js_times NaN k = NaN"
| "js_times (Fin r) k = Fin (r * k)"

text \<open>A positive number: what the timeout of a loaded configuration is meant to be.\<close>

fun positive :: "jsnumber \<Rightarrow> bool" where
  "positive NaN = False"
| "positive (Fin r) = (0 < r)"

text \<open>
  \<^verbatim>\<open>loadConfig\<close> (config.ts, lines 42-64). \<open>env\<close> is \<^verbatim>\<open>process.env\<close>; an unset
  variable reads undefined, and undefined and the empty string are falsy.
\<close>

definition loadConfig :: "(string \<Rightarrow> string option) \<Rightarrow> js_error + config" where
  "loadConfig env =
     (case env ''FAL_KEY'' of
        None \<Rightarrow> Inl (new_Error
          ''fal.ai API key not configured. Please set the FAL_KEY environment variable.'')
      | Some key \<Rightarrow>
          if key = [] then Inl (new_Error
            ''fal.ai API key not configured. Please set the FAL_KEY environment variable.'')
          else
            let outputDir =
                  (case env ''FAL_OUTPUT_DIR'' of
                     None \<Rightarrow> ''./generated-media''
                   | Some d \<Rightarrow> if d = [] then ''./generated-media'' else d);
                timeoutStr = env ''FAL_TIMEOUT'';
                timeout =
                  (case timeoutStr of
                     None \<Rightarrow> Fin 120000
                   | Some t \<Rightarrow> if t = [] then Fin 120000 else parseInt t)
            in if le_zero timeout then Inl (new_Error ''FAL_TIMEOUT must be a positive number'')
               else Inr \<lparr>apiKey = key, timeout = timeout, outputDir = outputDir\<rparr>)"

section \<open>The upstream client\<close>

text \<open>
  The effects of one invocation, in the order they happen: the upstream calls made
  (model, input record, the delay given to the timer it is raced against), the URLs
  fetched, the directories created and the files written.
\<close>

record effects =
  calls :: "(string \<times> (string \<times> jsval) list \<times> jsnumber) list"
  fetched :: "jsval list"
  mkdirs :: "string list"
  written :: "(string \<times> nat list) list"

definition no_effects :: effects where
  "no_effects = \<lparr>calls = [], fetched = [], mkdirs = [], written = []\<rparr>"

text \<open>
  How \<^verbatim>\<open>Promise.race\<close> finds the promise of \<^verbatim>\<open>fal.subscribe\<close> when the timer of the
  given delay would fire: resolved with a result whose \<^verbatim>\<open>data\<close> is the payload,
  rejected, or still pending.
\<close>

datatype settled = Resolved jsval | Rejected js_error | Pending

text \<open>The answer of \<^verbatim>\<open>fetch(url)\<close>: it throws, or gives a response.\<close>

record fetch_response =
  ok :: bool
  statusText :: string
  arrayBuffer :: "js_error + nat list"

text \<open>
  The issues that zod reports, each with the name of the field it is about (the empty
  name for the argument bag itself).
\<close>

datatype zissue = Required string | InvalidType string | TooSmall string | TooBig string
  | NotInt string

text \<open>
  Everything outside this program that an invocation meets: the remote service, the
  network, the file system, the clock, and the text that the engine and the zod library
  produce (\<^verbatim>\<open>Number::toString\<close>, \<^verbatim>\<open>JSON.stringify(v, null, 2)\<close> inside a template
  literal, \<^verbatim>\<open>ZodError.message\<close>, \<^verbatim>\<open>path.resolve\<close>, \<^verbatim>\<open>path.dirname\<close>).
\<close>

record world =
  subscribe :: "string \<Rightarrow> (string \<times> jsval) list \<Rightarrow> jsnumber \<Rightarrow> settled"
  fetch :: "jsval \<Rightarrow> js_error + fetch_response"
  existsSync :: "string \<Rightarrow> bool"
  mkdirSync :: "string \<Rightarrow> js_error option"
  writeFileSync :: "string \<Rightarrow> js_error option"
  toISOString :: string
  path_resolve :: "string \<Rightarrow> string \<Rightarrow> string"
  path_dirname :: "string \<Rightarrow> string"
  number_text :: "rat \<Rightarrow> string"
  json_stringify :: "jsval \<Rightarrow> string"
  zod_message :: "zissue list \<Rightarrow> string"

text \<open>\<^verbatim>\<open>FalClient\<close> (part_001): its one field is the timeout of the configuration.\<close>

record FalClient =
  client_timeout :: jsnumber

definition createFalClient :: "config \<Rightarrow> FalClient" where
  "createFalClient cfg = \<lparr>client_timeout = timeout cfg\<rparr>"

text \<open>The race of lines 18-26 and 31-39, against a timer of delay \<open>d\<close>.\<close>

definition race ::
  "world \<Rightarrow> string \<Rightarrow> (string \<times> jsval) list \<Rightarrow> jsnumber \<Rightarrow> effects
    \<Rightarrow> (js_error + jsval) \<times> effects" where
  "race w model input d s =
     ((case subscribe w model input d of
         Resolved dat \<Rightarrow> Inr dat
       | Rejected e \<Rightarrow> Inl e
       | Pending \<Rightarrow> Inl (new_Error ''Request timeout'')),
      s\<lparr>calls := calls s @ [(model, input, d)]\<rparr>)"

text \<open>\<^verbatim>\<open>FalClient.run\<close> (lines 17-28)\<close>

definition run ::
  "world \<Rightarrow> FalClient \<Rightarrow> string \<Rightarrow> (string \<times> jsval) list \<Rightarrow> effects
    \<Rightarrow> (js_error + jsval) \<times> effects" where
  "run w c model input s = race w model input (client_timeout c) s"

text \<open>\<^verbatim>\<open>FalClient.runLong\<close> (lines 30-41)\<close>

definition runLong ::
  "world \<Rightarrow> FalClient \<Rightarrow> string \<Rightarrow> (string \<times> jsval) list \<Rightarrow> effects
    \<Rightarrow> (js_error + jsval) \<times> effects" where
  "runLong w c model input s = race w model input (js_times (client_timeout c) 5) s"

text \<open>\<^verbatim>\<open>MODELS\<close> (config.ts, lines 8-40)\<close>

definition TEXT_TO_IMAGE :: string where "TEXT_TO_IMAGE = ''fal-ai/flux-pro/kontext/max/text-to-image''"
definition EDIT_IMAGE :: string where "EDIT_IMAGE = ''fal-ai/flux-pro/kontext/max''"
definition IMAGE_TO_IMAGE :: string where "IMAGE_TO_IMAGE = ''fal-ai/flux-general''"
definition INPAINT :: string where "INPAINT = ''fal-ai/flux-general/inpainting''"
definition STYLE_TRANSFER :: string where "STYLE_TRANSFER = ''fal-ai/flux/schnell/redux''"
definition TEXT_TO_VIDEO :: string where "TEXT_TO_VIDEO = ''fal-ai/kling-video/v3/pro/text-to-video''"
definition IMAGE_TO_VIDEO :: string where "IMAGE_TO_VIDEO = ''fal-ai/kling-video/v3/pro/image-to-video''"
definition LIPSYNC :: string where "LIPSYNC = ''fal-ai/sync-lipsync/v2''"
definition AVATAR_VIDEO :: string where "AVATAR_VIDEO = ''fal-ai/bytedance/omnihuman/v1.5''"
definition UPSCALE_IMAGE :: string where "UPSCALE_IMAGE = ''fal-ai/topaz/upscale/image''"
definition UPSCALE_VIDEO :: string where "UPSCALE_VIDEO = ''fal-ai/topaz/upscale/video''"
definition REMOVE_BACKGROUND :: string where "REMOVE_BACKGROUND = ''fal-ai/bria/background/remove''"
definition REMOVE_VIDEO_BACKGROUND :: string where "REMOVE_VIDEO_BACKGROUND = ''fal-ai/bria/video/background-removal''"
definition FACE_SWAP_IMAGE :: string where "FACE_SWAP_IMAGE = ''fal-ai/face-swap''"
definition FACE_SWAP_VIDEO :: string where "FACE_SWAP_VIDEO = ''fal-ai/face-swap/video''"
definition SEGMENT_IMAGE :: string where "SEGMENT_IMAGE = ''fal-ai/sam3''"
definition ESTIMATE_DEPTH :: string where "ESTIMATE_DEPTH = ''fal-ai/marigold-depth-estimation''"
definition GENERATE_MUSIC :: string where "GENERATE_MUSIC = ''fal-ai/beatoven/music-generation''"
definition TEXT_TO_SPEECH :: string where "TEXT_TO_SPEECH = ''fal-ai/minimax-speech/text-to-speech-02-hd''"
definition SOUND_EFFECT :: string where "SOUND_EFFECT = ''fal-ai/stable-audio''"
definition IMAGE_TO_3D :: string where "IMAGE_TO_3D = ''fal-ai/tripo3d/v2''"
definition RETEXTURE_3D :: string where "RETEXTURE_3D = ''fal-ai/meshy/retexture''"

text \<open>The methods of \<^verbatim>\<open>FalClient\<close> (part_001, lines 45-226), in the order of the source.\<close>

type_synonym client_method =
  "world \<Rightarrow> FalClient \<Rightarrow> (string \<times> jsval) list \<Rightarrow> effects \<Rightarrow> (js_error + jsval) \<times> effects"

definition generateImage :: client_method where
  "generateImage w c input s = run w c TEXT_TO_IMAGE input s"

definition editImage :: client_method where
  "editImage w c input s = run w c EDIT_IMAGE input s"

definition imageToImage :: client_method where
  "imageToImage w c input s = run w c IMAGE_TO_IMAGE input s"

definition inpaint :: client_method where
  "inpaint w c input s = run w c INPAINT input s"

definition styleTransfer :: client_method where
  "styleTransfer w c input s = run w c STYLE_TRANSFER input s"

definition textToVideo :: client_method where
  "textToVideo w c input s = runLong w c TEXT_TO_VIDEO input s"

definition imageToVideo :: client_method where
  "imageToVideo w c input s = runLong w c IMAGE_TO_VIDEO input s"

definition lipsync :: client_method where
  "lipsync w c input s = runLong w c LIPSYNC input s"

definition avatarVideo :: client_method where
  "avatarVideo w c input s = runLong w c AVATAR_VIDEO input s"

definition upscaleImage :: client_method where
  "upscaleImage w c input s = run w c UPSCALE_IMAGE input s"

definition upscaleVideo :: client_method where
  "upscaleVideo w c input s = runLong w c UPSCALE_VIDEO input s"

definition removeBackground :: client_method where
  "removeBackground w c input s = run w c REMOVE_BACKGROUND input s"

definition removeVideoBackground :: client_method where
  "removeVideoBackground w c input s = runLong w c REMOVE_VIDEO_BACKGROUND input s"

definition faceSwapImage :: client_method where
  "faceSwapImage w c input s = run w c FACE_SWAP_IMAGE input s"

definition faceSwapVideo :: client_method where
  "faceSwapVideo w c input s = runLong w c FACE_SWAP_VIDEO input s"

definition segmentImage :: client_method where
  "segmentImage w c input s = run w c SEGMENT_IMAGE input s"

definition estimateDepth :: client_method where
  "estimateDepth w c input s = run w c ESTIMATE_DEPTH input s"

definition generateMusic :: client_method where
  "generateMusic w c input s = runLong w c GENERATE_MUSIC input s"

definition textToSpeech :: client_method where
  "textToSpeech w c input s = run w c TEXT_TO_SPEECH input s"

definition generateSoundEffect :: client_method where
  "generateSoundEffect w c input s = run w c SOUND_EFFECT input s"

definition imageTo3D :: client_method where
  "imageTo3D w c input s = runLong w c IMAGE_TO_3D input s"

definition retexture3D :: client_method where
  "retexture3D w c input s = runLong w c RETEXTURE_3D input s"

section \<open>Error classification\<close>

text \<open>
  \<^verbatim>\<open>Error.prototype.toString\<close>, which \<^verbatim>\<open>${error}\<close> calls: the name alone when the
  message is empty, the message alone when the name is.
\<close>

definition error_toString :: "js_error \<Rightarrow> string" where
  "error_toString e =
     (if err_name e = [] then err_message e
      else if err_message e = [] then err_name e
      else err_name e @ '': '' @ err_message e)"

text \<open>The dash of the timeout message is U+2014, here in its three UTF-8 bytes.\<close>

definition timeout_text :: string where
  "timeout_text = ''fal.ai request timed out. This model may take longer ''
     @ [CHR 0xE2, CHR 0x80, CHR 0x94] @ '' try again or increase FAL_TIMEOUT.''"

text \<open>\<^verbatim>\<open>FalClient.handleError\<close> (part_001, lines 230-247)\<close>

definition handleError :: "world \<Rightarrow> js_error \<Rightarrow> js_error" where
  "handleError w error =
     (if err_message error = ''Request timeout'' then new_Error timeout_text
      else if err_status error = JNum (Fin 401) \<or> err_status error = JNum (Fin 403) then
        new_Error ''Invalid fal.ai API key. Please check your FAL_KEY environment variable.''
      else if err_status error = JNum (Fin 429) then
        new_Error ''fal.ai rate limit exceeded. Please wait a moment and try again.''
      else if err_status error = JNum (Fin 422) then
        new_Error (''fal.ai validation error: '' @
          to_string (number_text w)
            (js_or (opt_member (err_body error) ''detail'') (JStr (err_message error))))
      else if err_code error = JStr ''ENOTFOUND'' \<or> err_code error = JStr ''ECONNREFUSED'' then
        new_Error (''Failed to connect to fal.ai API: '' @ err_message error)
      else
        new_Error (''fal.ai API error: '' @
          (if err_message error \<noteq> [] then err_message error else error_toString error)))"

section \<open>Argument validation\<close>

text \<open>
  The zod schemas of the handler, as data: \<^verbatim>\<open>z.string()\<close> and \<^verbatim>\<open>z.number()\<close> with
  their checks (\<^verbatim>\<open>.int()\<close>, \<^verbatim>\<open>.min(m)\<close>, \<^verbatim>\<open>.max(m)\<close>; on a string the bounds are on
  its length), and whether the field is \<^verbatim>\<open>.optional()\<close>.
\<close>

datatype zcheck = ZInt | ZMin rat | ZMax rat

datatype ztype = ZString "zcheck list" | ZNumber "zcheck list"

type_synonym shape = "(string \<times> ztype \<times> bool) list"

fun check_issue :: "string \<Rightarrow> rat \<Rightarrow> zcheck \<Rightarrow> zissue list" where
  "check_issue k x ZInt = (if of_int \<lfloor>x\<rfloor> = x then [] else [NotInt k])"
| "check_issue k x (ZMin m) = (if x < m then [TooSmall k] else [])"
| "check_issue k x (ZMax m) = (if m < x then [TooBig k] else [])"

text \<open>
  The issues of one field. An absent (undefined) value passes only an optional field;
  null, NaN and a value of another type are of the wrong type.
\<close>

fun field_issues :: "string \<Rightarrow> ztype \<Rightarrow> bool \<Rightarrow> jsval \<Rightarrow> zissue list" where
  "field_issues k t opt JUndefined = (if opt then [] else [Required k])"
| "field_issues k (ZString cs) opt (JStr str) =
     concat (map (check_issue k (of_nat (length str))) cs)"
| "field_issues k (ZNumber cs) opt (JNum (Fin x)) = concat (map (check_issue k x) cs)"
| "field_issues k t opt v = [InvalidType k]"

definition ZodError :: "world \<Rightarrow> zissue list \<Rightarrow> js_error" where
  "ZodError w issues =
     \<lparr>err_name = ''ZodError'', err_message = zod_message w issues, err_status = JUndefined,
      err_code = JUndefined, err_body = JUndefined\<rparr>"

definition shape_issues :: "shape \<Rightarrow> jsval \<Rightarrow> zissue list" where
  "shape_issues sh args = concat (map (\<lambda>(k, t, opt). field_issues k t opt (member args k)) sh)"

text \<open>
  \<^verbatim>\<open>z.object(shape).parse(args)\<close>: every issue is collected and thrown in one ZodError
  (an absent bag and a bag that is no object are issues of their own); the parsed record
  has the keys of the shape that \<^verbatim>\<open>args\<close> has, in the order of the shape, and no other
  key.
\<close>

definition zod_issues :: "shape \<Rightarrow> jsval \<Rightarrow> zissue list" where
  "zod_issues sh args =
     (case args of
        JObj fs \<Rightarrow> shape_issues sh args
      | JUndefined \<Rightarrow> [Required []]
      | _ \<Rightarrow> [InvalidType []])"

fun has_own :: "jsval \<Rightarrow> string \<Rightarrow> bool" where
  "has_own (JObj fs) k = (map_of fs k \<noteq> None)"
| "has_own v k = False"

definition zparse :: "world \<Rightarrow> shape \<Rightarrow> jsval \<Rightarrow> js_error + (string \<times> jsval) list" where
  "zparse w sh args =
     (if zod_issues sh args = [] then
        Inr (map (\<lambda>(k, t, opt). (k, member args k)) (filter (\<lambda>(k, t, opt). has_own args k) sh))
      else Inl (ZodError w (zod_issues sh args)))"

section \<open>The dispatcher\<close>

text \<open>The reply of the handler: one text and the error flag (absent means false).\<close>

record response =
  content_text :: string
  isError :: bool

text \<open>A validated field that is a string, as a string.\<close>

fun string_of :: "jsval \<Rightarrow> string" where
  "string_of (JStr str) = str"
| "string_of v = []"

text \<open>\<^verbatim>\<open>downloadFile\<close> (part_000, lines 26-36)\<close>

definition downloadFile ::
  "world \<Rightarrow> jsval \<Rightarrow> string \<Rightarrow> effects \<Rightarrow> (js_error + string) \<times> effects" where
  "downloadFile w url savePath s =
     (let dir = path_dirname w savePath;
          made = (if existsSync w dir then None else mkdirSync w dir);
          s1 = (if existsSync w dir then s else s\<lparr>mkdirs := mkdirs s @ [dir]\<rparr>);
          s2 = s1\<lparr>fetched := fetched s1 @ [url]\<rparr>
      in (case made of
            Some e \<Rightarrow> (Inl e, s)
          | None \<Rightarrow>
             (case fetch w url of
                Inl e \<Rightarrow> (Inl e, s2)
              | Inr resp \<Rightarrow>
                 (if \<not> ok resp then
                    (Inl (new_Error (''Failed to download: '' @ statusText resp)), s2)
                  else
                    (case arrayBuffer resp of
                       Inl e \<Rightarrow> (Inl e, s2)
                     | Inr buffer \<Rightarrow>
                        (case writeFileSync w savePath of
                           Some e \<Rightarrow> (Inl e, s2)
                         | None \<Rightarrow>
                            (Inr savePath,
                             s2\<lparr>written := written s2 @ [(savePath, buffer)]\<rparr>)))))))"

text \<open>\<^verbatim>\<open>getAutoSavePath\<close> (lines 39-43)\<close>

definition getAutoSavePath :: "world \<Rightarrow> config \<Rightarrow> string \<Rightarrow> string \<Rightarrow> string" where
  "getAutoSavePath w cfg prefix ext =
     (let timestamp =
            map (\<lambda>ch. if ch = CHR '':'' \<or> ch = CHR ''.'' then CHR ''-'' else ch) (toISOString w);
          filename = prefix @ ''-'' @ timestamp @ ''.'' @ ext
      in path_resolve w (outputDir cfg) filename)"

text \<open>
  The video, audio and 3D extractors give one locator or null, and the handler tests
  \<^verbatim>\<open>!url\<close>; the image extractor gives a list, and the handler tests its length and
  takes \<^verbatim>\<open>urls[0]\<close>. Both are read here as the list of locators found.
\<close>

definition one_url :: "(jsval \<Rightarrow> js_error + jsval) \<Rightarrow> jsval \<Rightarrow> js_error + jsval list" where
  "one_url extract dat =
     (case extract dat of
        Inl e \<Rightarrow> Inl e
      | Inr url \<Rightarrow> Inr (if truthy url then [url] else []))"

text \<open>
  What a case answers when no locator was found: an error-flagged text, or the raw
  payload as text after a heading.
\<close>

datatype on_none = Fail string | Raw string

fun none_reply :: "world \<Rightarrow> on_none \<Rightarrow> jsval \<Rightarrow> response" where
  "none_reply w (Fail msg) dat = \<lparr>content_text = msg, isError = True\<rparr>"
| "none_reply w (Raw heading) dat =
     \<lparr>content_text = heading @ json_stringify w dat, isError = False\<rparr>"

text \<open>\<^verbatim>\<open>const { save_path, ...apiInput } = input\<close>\<close>

definition apiInput_of :: "(string \<times> jsval) list \<Rightarrow> (string \<times> jsval) list" where
  "apiInput_of input = filter (\<lambda>(k, v). k \<noteq> ''save_path'') input"

text \<open>\<^verbatim>\<open>input.output_format || 'png'\<close>\<close>

definition format_or_png :: "(string \<times> jsval) list \<Rightarrow> string" where
  "format_or_png input =
     (if truthy (member (JObj input) ''output_format'')
      then string_of (member (JObj input) ''output_format'') else ''png'')"

definition png :: "(string \<times> jsval) list \<Rightarrow> string" where
  "png input = ''png''"

definition mp4 :: "(string \<times> jsval) list \<Rightarrow> string" where
  "mp4 input = ''mp4''"

definition mp3 :: "(string \<times> jsval) list \<Rightarrow> string" where
  "mp3 input = ''mp3''"

definition glb :: "(string \<times> jsval) list \<Rightarrow> string" where
  "glb input = ''glb''"

type_synonym outcome = "(js_error + response) \<times> effects"

text \<open>
  The body that twenty-one of the twenty-two cases of the switch share (all but
  \<^verbatim>\<open>segment_image\<close>): parse, split off \<^verbatim>\<open>save_path\<close>, call the client, extract, answer
  at once when nothing was found, else download to \<^verbatim>\<open>save_path || getAutoSavePath(...)\<close>
  and answer with the text of the case.
\<close>

definition download_case ::
  "world \<Rightarrow> config \<Rightarrow> shape \<Rightarrow> ((string \<times> jsval) list \<Rightarrow> effects \<Rightarrow> (js_error + jsval) \<times> effects)
    \<Rightarrow> (jsval \<Rightarrow> js_error + jsval list) \<Rightarrow> on_none \<Rightarrow> string
    \<Rightarrow> ((string \<times> jsval) list \<Rightarrow> string) \<Rightarrow> (string \<Rightarrow> jsval list \<Rightarrow> jsval \<Rightarrow> string)
    \<Rightarrow> jsval \<Rightarrow> effects \<Rightarrow> outcome" where
  "download_case w cfg sh method extract none prefix ext saved args s =
     (case zparse w sh args of
        Inl e \<Rightarrow> (Inl e, s)
      | Inr input \<Rightarrow>
         (let save_path = member (JObj input) ''save_path'';
              apiInput = apiInput_of input
          in (case method apiInput s of
                (Inl e, s1) \<Rightarrow> (Inl e, s1)
              | (Inr dat, s1) \<Rightarrow>
                 (case extract dat of
                    Inl e \<Rightarrow> (Inl e, s1)
                  | Inr [] \<Rightarrow> (Inr (none_reply w none dat), s1)
                  | Inr (url # others) \<Rightarrow>
                     (let savePath =
                            (if truthy save_path then string_of save_path
                             else getAutoSavePath w cfg prefix (ext input))
                      in (case downloadFile w url savePath s1 of
                            (Inl e, s2) \<Rightarrow> (Inl e, s2)
                          | (Inr p, s2) \<Rightarrow>
                             (Inr \<lparr>content_text = saved savePath (url # others) dat,
                                   isError = False\<rparr>, s2)))))))"

text \<open>The text of a case that names the saved path after a fixed heading.\<close>

definition saved_to :: "string \<Rightarrow> string \<Rightarrow> jsval list \<Rightarrow> jsval \<Rightarrow> string" where
  "saved_to heading savePath urls dat = heading @ savePath"

section \<open>The cases of the switch\<close>

text \<open>The zod schema of each case of the \<^verbatim>\<open>tools/call\<close> handler (part_000, lines 420-916).\<close>

definition generate_image_shape :: shape where
  "generate_image_shape =
     [(''prompt'', ZString [ZMin 1], False),
      (''image_size'', ZString [], True),
      (''num_images'', ZNumber [ZInt, ZMin 1, ZMax 4], True),
      (''seed'', ZNumber [ZInt], True),
      (''output_format'', ZString [], True),
      (''save_path'', ZString [], True)]"

definition edit_image_shape :: shape where
  "edit_image_shape =
     [(''prompt'', ZString [ZMin 1], False),
      (''image_url'', ZString [ZMin 1], False),
      (''image_size'', ZString [], True),
      (''seed'', ZNumber [ZInt], True),
      (''save_path'', ZString [], True)]"

definition image_to_image_shape :: shape where
  "image_to_image_shape =
     [(''prompt'', ZString [ZMin 1], False),
      (''image_url'', ZString [ZMin 1], False),
      (''strength'', ZNumber [ZMin 0, ZMax 1], True),
      (''image_size'', ZString [], True),
      (''num_inference_steps'', ZNumber [ZInt, ZMin 1, ZMax 50], True),
      (''seed'', ZNumber [ZInt], True),
      (''num_images'', ZNumber [ZInt, ZMin 1, ZMax 4], True),
      (''output_format'', ZString [], True),
      (''save_path'', ZString [], True)]"

definition inpaint_shape :: shape where
  "inpaint_shape =
     [(''prompt'', ZString [ZMin 1], False),
      (''image_url'', ZString [ZMin 1], False),
      (''mask_url'', ZString [ZMin 1], False),
      (''image_size'', ZString [], True),
      (''num_inference_steps'', ZNumber [ZInt, ZMin 1, ZMax 50], True),
      (''seed'', ZNumber [ZInt], True),
      (''output_format'', ZString [], True),
      (''save_path'', ZString [], True)]"

definition style_transfer_shape :: shape where
  "style_transfer_shape =
     [(''image_url'', ZString [ZMin 1], False),
      (''image_size'', ZString [], True),
      (''num_inference_steps'', ZNumber [ZInt, ZMin 1, ZMax 4], True),
      (''seed'', ZNumber [ZInt], True),
      (''num_images'', ZNumber [ZInt, ZMin 1, ZMax 4], True),
      (''save_path'', ZString [], True)]"

definition text_to_video_shape :: shape where
  "text_to_video_shape =
     [(''prompt'', ZString [ZMin 1], False),
      (''duration'', ZString [], True),
      (''aspect_ratio'', ZString [], True),
      (''negative_prompt'', ZString [], True),
      (''save_path'', ZString [], True)]"

definition image_to_video_shape :: shape where
  "image_to_video_shape =
     [(''prompt'', ZString [ZMin 1], False),
      (''image_url'', ZString [ZMin 1], False),
      (''duration'', ZString [], True),
      (''aspect_ratio'', ZString [], True),
      (''save_path'', ZString [], True)]"

definition lipsync_shape :: shape where
  "lipsync_shape =
     [(''video_url'', ZString [ZMin 1], False),
      (''audio_url'', ZString [ZMin 1], False),
      (''save_path'', ZString [], True)]"

definition avatar_video_shape :: shape where
  "avatar_video_shape =
     [(''image_url'', ZString [ZMin 1], False),
      (''audio_url'', ZString [ZMin 1], False),
      (''save_path'', ZString [], True)]"

definition upscale_image_shape :: shape where
  "upscale_image_shape =
     [(''image_url'', ZString [ZMin 1], False),
      (''scale'', ZNumber [ZMin 1, ZMax 8], True),
      (''save_path'', ZString [], True)]"

definition upscale_video_shape :: shape where
  "upscale_video_shape =
     [(''video_url'', ZString [ZMin 1], False),
      (''scale'', ZNumber [ZMin 1, ZMax 4], True),
      (''save_path'', ZString [], True)]"

definition remove_background_shape :: shape where
  "remove_background_shape =
     [(''image_url'', ZString [ZMin 1], False),
      (''save_path'', ZString [], True)]"

definition remove_video_background_shape :: shape where
  "remove_video_background_shape =
     [(''video_url'', ZString [ZMin 1], False),
      (''save_path'', ZString [], True)]"

definition face_swap_image_shape :: shape where
  "face_swap_image_shape =
     [(''base_image_url'', ZString [ZMin 1], False),
      (''swap_image_url'', ZString [ZMin 1], False),
      (''save_path'', ZString [], True)]"

definition face_swap_video_shape :: shape where
  "face_swap_video_shape =
     [(''base_video_url'', ZString [ZMin 1], False),
      (''swap_image_url'', ZString [ZMin 1], False),
      (''save_path'', ZString [], True)]"

definition segment_image_shape :: shape where
  "segment_image_shape =
     [(''image_url'', ZString [ZMin 1], False),
      (''prompt'', ZString [], True),
      (''save_path'', ZString [], True)]"

definition estimate_depth_shape :: shape where
  "estimate_depth_shape =
     [(''image_url'', ZString [ZMin 1], False),
      (''save_path'', ZString [], True)]"

definition generate_music_shape :: shape where
  "generate_music_shape =
     [(''prompt'', ZString [ZMin 1], False),
      (''duration'', ZNumber [], True),
      (''save_path'', ZString [], True)]"

definition text_to_speech_shape :: shape where
  "text_to_speech_shape =
     [(''text'', ZString [ZMin 1], False),
      (''voice_id'', ZString [], True),
      (''speed'', ZNumber [ZMin (1 / 2), ZMax 2], True),
      (''save_path'', ZString [], True)]"

definition generate_sound_effect_shape :: shape where
  "generate_sound_effect_shape =
     [(''prompt'', ZString [ZMin 1], False),
      (''duration_seconds'', ZNumber [], True),
      (''save_path'', ZString [], True)]"

definition image_to_3d_shape :: shape where
  "image_to_3d_shape =
     [(''image_url'', ZString [ZMin 1], False),
      (''save_path'', ZString [], True)]"

definition retexture_3d_shape :: shape where
  "retexture_3d_shape =
     [(''model_url'', ZString [ZMin 1], False),
      (''prompt'', ZString [ZMin 1], False),
      (''reference_image_url'', ZString [], True),
      (''save_path'', ZString [], True)]"

text \<open>The text of \<^verbatim>\<open>generate_image\<close> (lines 441-447).\<close>

definition generated_text ::
  "(rat \<Rightarrow> string) \<Rightarrow> string \<Rightarrow> jsval list \<Rightarrow> jsval \<Rightarrow> string" where
  "generated_text ns savePath urls dat =
     ''Image generated and saved to: '' @ savePath
     @ (if 1 < length urls then
          newline @ ''Additional images: ''
          @ join_with '', '' (map (\<lambda>u. if nullish u then [] else to_string ns u) (drop 1 urls))
        else [])
     @ (if member dat ''seed'' \<noteq> JUndefined then
          newline @ ''Seed: '' @ to_string ns (member dat ''seed'')
        else [])"

text \<open>
  \<^verbatim>\<open>segment_image\<close> (lines 766-786) has a body of its own: the raw payload is always
  the answer, and the mask is downloaded only when one was found and \<^verbatim>\<open>save_path\<close> was
  given.
\<close>

definition inspect_case ::
  "world \<Rightarrow> shape \<Rightarrow> ((string \<times> jsval) list \<Rightarrow> effects \<Rightarrow> (js_error + jsval) \<times> effects)
    \<Rightarrow> (jsval \<Rightarrow> js_error + jsval list) \<Rightarrow> jsval \<Rightarrow> effects \<Rightarrow> outcome" where
  "inspect_case w sh method extract args s =
     (case zparse w sh args of
        Inl e \<Rightarrow> (Inl e, s)
      | Inr input \<Rightarrow>
         (let save_path = member (JObj input) ''save_path'';
              apiInput = apiInput_of input
          in (case method apiInput s of
                (Inl e, s1) \<Rightarrow> (Inl e, s1)
              | (Inr dat, s1) \<Rightarrow>
                 (let responseText =
                        ''Segmentation complete.'' @ newline @ newline @ ''Raw result:''
                        @ newline @ json_stringify w dat
                  in (case extract dat of
                        Inl e \<Rightarrow> (Inl e, s1)
                      | Inr [] \<Rightarrow>
                         (Inr \<lparr>content_text = responseText, isError = False\<rparr>, s1)
                      | Inr (url # others) \<Rightarrow>
                         (if truthy save_path then
                            (case downloadFile w url (string_of save_path) s1 of
                               (Inl e, s2) \<Rightarrow> (Inl e, s2)
                             | (Inr p, s2) \<Rightarrow>
                                (Inr \<lparr>content_text =
                                        responseText @ newline @ newline
                                        @ ''Mask saved to: '' @ string_of save_path,
                                      isError = False\<rparr>, s2))
                          else
                            (Inr \<lparr>content_text = responseText, isError = False\<rparr>, s1)))))))"

text \<open>
  What tells one case of the switch from another: its schema, its client method, its
  extractor and its body, which is the shared one (with the answer when nothing was
  found, the prefix and extension of the automatic file name, and the text) or that of
  \<^verbatim>\<open>segment_image\<close>.
\<close>

datatype body =
    Download on_none string "(string \<times> jsval) list \<Rightarrow> string"
      "(rat \<Rightarrow> string) \<Rightarrow> string \<Rightarrow> jsval list \<Rightarrow> jsval \<Rightarrow> string"
  | Inspect

record tool_case =
  tc_schema :: shape
  tc_method :: client_method
  tc_extract :: "jsval \<Rightarrow> js_error + jsval list"
  tc_body :: body

text \<open>The cases, in the order of the source.\<close>

definition tool_cases :: "(string \<times> tool_case) list" where
  "tool_cases =
     [(''generate_image'',
       \<lparr>tc_schema = generate_image_shape, tc_method = generateImage,
        tc_extract = extractImageUrls,
        tc_body = Download (Fail ''No image was generated. Try rephrasing your prompt.'')
          ''generated'' format_or_png generated_text\<rparr>),
      (''edit_image'',
       \<lparr>tc_schema = edit_image_shape, tc_method = editImage,
        tc_extract = extractImageUrls,
        tc_body = Download (Fail ''No edited image was generated. Try rephrasing your prompt.'')
          ''edited'' png (\<lambda>ns. saved_to ''Edited image saved to: '')\<rparr>),
      (''image_to_image'',
       \<lparr>tc_schema = image_to_image_shape, tc_method = imageToImage,
        tc_extract = extractImageUrls,
        tc_body = Download (Fail ''No image was generated. Try rephrasing your prompt.'')
          ''img2img'' format_or_png (\<lambda>ns. saved_to ''Transformed image saved to: '')\<rparr>),
      (''inpaint'',
       \<lparr>tc_schema = inpaint_shape, tc_method = inpaint,
        tc_extract = extractImageUrls,
        tc_body = Download (Fail ''Inpainting failed. Try a different prompt or mask.'')
          ''inpainted'' format_or_png (\<lambda>ns. saved_to ''Inpainted image saved to: '')\<rparr>),
      (''style_transfer'',
       \<lparr>tc_schema = style_transfer_shape, tc_method = styleTransfer,
        tc_extract = extractImageUrls,
        tc_body = Download (Fail ''Style transfer failed. Try a different reference image.'')
          ''style-transfer'' png (\<lambda>ns. saved_to ''Style transfer result saved to: '')\<rparr>),
      (''text_to_video'',
       \<lparr>tc_schema = text_to_video_shape, tc_method = textToVideo,
        tc_extract = one_url extractVideoUrl,
        tc_body = Download (Fail ''No video was generated. Try rephrasing your prompt.'')
          ''text2video'' mp4 (\<lambda>ns. saved_to ''Video generated and saved to: '')\<rparr>),
      (''image_to_video'',
       \<lparr>tc_schema = image_to_video_shape, tc_method = imageToVideo,
        tc_extract = one_url extractVideoUrl,
        tc_body = Download (Fail ''No video was generated. Try a different image or prompt.'')
          ''img2video'' mp4 (\<lambda>ns. saved_to ''Video generated and saved to: '')\<rparr>),
      (''lipsync'',
       \<lparr>tc_schema = lipsync_shape, tc_method = lipsync,
        tc_extract = one_url extractVideoUrl,
        tc_body = Download (Fail ''Lipsync failed. Check that the video contains a visible face and the audio is clear.'')
          ''lipsync'' mp4 (\<lambda>ns. saved_to ''Lipsync video saved to: '')\<rparr>),
      (''avatar_video'',
       \<lparr>tc_schema = avatar_video_shape, tc_method = avatarVideo,
        tc_extract = one_url extractVideoUrl,
        tc_body = Download (Fail ''Avatar video generation failed. Ensure the image is a clear portrait/headshot.'')
          ''avatar'' mp4 (\<lambda>ns. saved_to ''Avatar video saved to: '')\<rparr>),
      (''upscale_image'',
       \<lparr>tc_schema = upscale_image_shape, tc_method = upscaleImage,
        tc_extract = extractImageUrls,
        tc_body = Download (Fail ''Upscaling failed.'')
          ''upscaled'' png (\<lambda>ns. saved_to ''Upscaled image saved to: '')\<rparr>),
      (''upscale_video'',
       \<lparr>tc_schema = upscale_video_shape, tc_method = upscaleVideo,
        tc_extract = one_url extractVideoUrl,
        tc_body = Download (Fail ''Video upscaling failed.'')
          ''upscaled'' mp4 (\<lambda>ns. saved_to ''Upscaled video saved to: '')\<rparr>),
      (''remove_background'',
       \<lparr>tc_schema = remove_background_shape, tc_method = removeBackground,
        tc_extract = extractImageUrls,
        tc_body = Download (Fail ''Background removal failed.'')
          ''no-bg'' png (\<lambda>ns. saved_to ''Background removed. Saved to: '')\<rparr>),
      (''remove_video_background'',
       \<lparr>tc_schema = remove_video_background_shape, tc_method = removeVideoBackground,
        tc_extract = one_url extractVideoUrl,
        tc_body = Download (Fail ''Video background removal failed.'')
          ''no-bg-video'' mp4 (\<lambda>ns. saved_to ''Video background removed. Saved to: '')\<rparr>),
      (''face_swap_image'',
       \<lparr>tc_schema = face_swap_image_shape, tc_method = faceSwapImage,
        tc_extract = extractImageUrls,
        tc_body = Download (Fail ''Face swap failed. Ensure both images contain clear, visible faces.'')
          ''face-swap'' png (\<lambda>ns. saved_to ''Face swap result saved to: '')\<rparr>),
      (''face_swap_video'',
       \<lparr>tc_schema = face_swap_video_shape, tc_method = faceSwapVideo,
        tc_extract = one_url extractVideoUrl,
        tc_body = Download (Fail ''Video face swap failed. Ensure the video has a clear face and the swap image is a good headshot.'')
          ''face-swap-video'' mp4 (\<lambda>ns. saved_to ''Face swap video saved to: '')\<rparr>),
      (''segment_image'',
       \<lparr>tc_schema = segment_image_shape, tc_method = segmentImage,
        tc_extract = extractImageUrls,
        tc_body = Inspect\<rparr>),
      (''estimate_depth'',
       \<lparr>tc_schema = estimate_depth_shape, tc_method = estimateDepth,
        tc_extract = extractImageUrls,
        tc_body = Download (Raw (''Depth estimation complete.'' @ newline @ newline @ ''Raw result:'' @ newline))
          ''depth'' png (\<lambda>ns. saved_to ''Depth map saved to: '')\<rparr>),
      (''generate_music'',
       \<lparr>tc_schema = generate_music_shape, tc_method = generateMusic,
        tc_extract = one_url extractAudioUrl,
        tc_body = Download (Raw (''Music generation result:'' @ newline))
          ''music'' mp3 (\<lambda>ns. saved_to ''Music generated and saved to: '')\<rparr>),
      (''text_to_speech'',
       \<lparr>tc_schema = text_to_speech_shape, tc_method = textToSpeech,
        tc_extract = one_url extractAudioUrl,
        tc_body = Download (Raw (''TTS result:'' @ newline))
          ''speech'' mp3 (\<lambda>ns. saved_to ''Speech audio saved to: '')\<rparr>),
      (''generate_sound_effect'',
       \<lparr>tc_schema = generate_sound_effect_shape, tc_method = generateSoundEffect,
        tc_extract = one_url extractAudioUrl,
        tc_body = Download (Raw (''Sound effect result:'' @ newline))
          ''sfx'' mp3 (\<lambda>ns. saved_to ''Sound effect saved to: '')\<rparr>),
      (''image_to_3d'',
       \<lparr>tc_schema = image_to_3d_shape, tc_method = imageTo3D,
        tc_extract = one_url extract3DUrl,
        tc_body = Download (Raw (''3D generation result:'' @ newline))
          ''model'' glb (\<lambda>ns. saved_to ''3D model saved to: '')\<rparr>),
      (''retexture_3d'',
       \<lparr>tc_schema = retexture_3d_shape, tc_method = retexture3D,
        tc_extract = one_url extract3DUrl,
        tc_body = Download (Raw (''Retexture result:'' @ newline))
          ''retextured'' glb (\<lambda>ns. saved_to ''Retextured 3D model saved to: '')\<rparr>)]"

definition run_case :: "world \<Rightarrow> config \<Rightarrow> FalClient \<Rightarrow> tool_case \<Rightarrow> jsval \<Rightarrow> effects \<Rightarrow> outcome" where
  "run_case w cfg c tc args s =
     (case tc_body tc of
        Download none prefix ext saved \<Rightarrow>
          download_case w cfg (tc_schema tc) (tc_method tc w c) (tc_extract tc) none prefix ext
            (saved (number_text w)) args s
      | Inspect \<Rightarrow> inspect_case w (tc_schema tc) (tc_method tc w c) (tc_extract tc) args s)"

text \<open>The \<^verbatim>\<open>switch (name)\<close> of the handler; the default case throws.\<close>

definition switch :: "world \<Rightarrow> config \<Rightarrow> FalClient \<Rightarrow> string \<Rightarrow> jsval \<Rightarrow> effects \<Rightarrow> outcome" where
  "switch w cfg c name args s =
     (case map_of tool_cases name of
        Some tc \<Rightarrow> run_case w cfg c tc args s
      | None \<Rightarrow> (Inl (new_Error (''Unknown tool: '' @ name)), s))"

text \<open>
  The handler of \<^verbatim>\<open>tools/call\<close> (lines 412-928): whatever the body throws is caught,
  classified by \<^verbatim>\<open>handleError\<close> and answered with the error flag.
\<close>

definition handle_call ::
  "world \<Rightarrow> config \<Rightarrow> FalClient \<Rightarrow> string \<Rightarrow> jsval \<Rightarrow> effects \<Rightarrow> response \<times> effects" where
  "handle_call w cfg c name args s =
     (case switch w cfg c name args s of
        (Inl error, s') \<Rightarrow>
          (\<lparr>content_text = err_message (handleError w error), isError = True\<rparr>, s')
      | (Inr reply, s') \<Rightarrow> (reply, s'))"

section \<open>A world for the examples\<close>

text \<open>
  The remote service answers every call with \<open>answer\<close>; every download succeeds, every
  directory exists and every write succeeds.
\<close>

definition example_world :: "settled \<Rightarrow> world" where
  "example_world answer =
     \<lparr>subscribe = (\<lambda>model input d. answer),
      fetch = (\<lambda>url. Inr \<lparr>ok = True, statusText = ''OK'', arrayBuffer = Inr [137, 80, 78, 71]\<rparr>),
      existsSync = (\<lambda>dir. True),
      mkdirSync = (\<lambda>dir. None),
      writeFileSync = (\<lambda>file. None),
      toISOString = ''2026-01-02T03:04:05.678Z'',
      path_resolve = (\<lambda>dir file. dir @ ''/'' @ file),
      path_dirname = (\<lambda>file. ''out''),
      number_text = (\<lambda>r. ''7''),
      json_stringify = (\<lambda>v. ''{}''),
      zod_message = (\<lambda>issues. ''invalid arguments'')\<rparr>"

definition example_config :: config where
  "example_config = \<lparr>apiKey = ''key'', timeout = Fin 120000, outputDir = ''out''\<rparr>"

section \<open>Properties of the extractors\<close>

lemma find_nullish_None: "(\<forall>img\<in>set imgs. \<not> nullish img) \<Longrightarrow> find nullish imgs = None"
  by (induction imgs) auto

text \<open>
  When \<^verbatim>\<open>images\<close> is an array, the answer is decided by the array alone: the TypeError
  of its first null or undefined entry, else the truthy values among \<^verbatim>\<open>img.url || img\<close>.
\<close>

lemma extractImageUrls_array:
  "map_of fs ''images'' = Some (JArr imgs) \<Longrightarrow>
   extractImageUrls (JObj fs) =
     (case find nullish imgs of
        Some bad \<Rightarrow> Inl (cannot_read bad ''url'')
      | None \<Rightarrow> Inr (filter truthy (map image_entry imgs)))"
  by (simp add: extractImageUrls_def split: option.split)

lemma extractImageUrls_no_nullish:
  assumes "map_of fs ''images'' = Some (JArr imgs)" and "\<forall>img\<in>set imgs. \<not> nullish img"
  shows "extractImageUrls (JObj fs) = Inr (filter truthy (map image_entry imgs))"
  using assms by (simp add: extractImageUrls_array find_nullish_None)

text \<open>
  C6. A payload with both a plural \<^verbatim>\<open>images\<close> sequence, each entry a bare string or an
  object with a \<^verbatim>\<open>url\<close> attribute, and a singular top-level \<^verbatim>\<open>url\<close>: the answer is
  taken from the sequence (the entry's \<^verbatim>\<open>url\<close> when it is truthy, else the entry itself,
  falsy values dropped), whatever the singular field holds.
\<close>

theorem extractImageUrls_plural_first:
  assumes "map_of fs ''images'' = Some (JArr imgs)"
    and "map_of fs ''url'' = Some u"
    and "\<forall>img\<in>set imgs.
           (\<exists>str. img = JStr str) \<or> (\<exists>ps v. img = JObj ps \<and> map_of ps ''url'' = Some v)"
  shows "extractImageUrls (JObj fs) =
     Inr (filter truthy
       (map (\<lambda>img. if truthy (member img ''url'') then member img ''url'' else img) imgs))"
proof -
  have "\<forall>img\<in>set imgs. \<not> nullish img"
    using assms(3) by auto
  with assms(1) have "extractImageUrls (JObj fs) = Inr (filter truthy (map image_entry imgs))"
    by (rule extractImageUrls_no_nullish)
  then show ?thesis
    by (simp add: image_entry_def [abs_def] js_or_def)
qed

theorem extractImageUrls_plural_first_witness:
  "extractImageUrls
     (JObj [(''images'', JArr [JObj [(''url'', JStr ''a'')]]), (''url'', JStr ''b'')])
   = Inr [JStr ''a'']"
  using extractImageUrls_plural_first
    [of "[(''images'', JArr [JObj [(''url'', JStr ''a'')]]), (''url'', JStr ''b'')]"
        "[JObj [(''url'', JStr ''a'')]]" "JStr ''b''"]
  by simp

text \<open>
  C7. On the payload \<^verbatim>\<open>{output: {url: x}}\<close> with nothing else, \<open>x\<close> a non-empty string,
  the video, audio and 3D extractors all return \<open>x\<close>, by the output-wrapper probe.
\<close>

theorem extract_output_wrapper:
  "x \<noteq> [] \<Longrightarrow>
     extractVideoUrl (JObj [(''output'', JObj [(''url'', JStr x)])]) = Inr (JStr x) \<and>
     extractAudioUrl (JObj [(''output'', JObj [(''url'', JStr x)])]) = Inr (JStr x) \<and>
     extract3DUrl (JObj [(''output'', JObj [(''url'', JStr x)])]) = Inr (JStr x)"
  by (simp add: extractVideoUrl_def extractAudioUrl_def extract3DUrl_def opt_member_def)

theorem extract_output_wrapper_witness:
  "extractVideoUrl (JObj [(''output'', JObj [(''url'', JStr ''x'')])]) = Inr (JStr ''x'') \<and>
   extractAudioUrl (JObj [(''output'', JObj [(''url'', JStr ''x'')])]) = Inr (JStr ''x'') \<and>
   extract3DUrl (JObj [(''output'', JObj [(''url'', JStr ''x'')])]) = Inr (JStr ''x'')"
  using extract_output_wrapper [of "''x''"] by simp

text \<open>
  C10. With a null entry in the \<^verbatim>\<open>images\<close> array the extractor does not drop the entry:
  \<^verbatim>\<open>img.url\<close> throws a TypeError before \<^verbatim>\<open>filter(Boolean)\<close> runs, where falsy
  entries are to be dropped and the empty list returned.
\<close>

theorem extractImageUrls_null_entry_throws:
  "extractImageUrls (JObj [(''images'', JArr [JNull]), (''url'', JStr ''b'')]) =
     Inl \<lparr>err_name = ''TypeError'',
          err_message = ''Cannot read properties of null (reading '' @ [CHR 0x27] @ ''url''
            @ [CHR 0x27] @ '')'',
          err_status = JUndefined, err_code = JUndefined, err_body = JUndefined\<rparr>"
  by (simp add: extractImageUrls_def cannot_read_def)

lemma extractImageUrls_empty_array:
  "extractImageUrls (JObj [(''images'', JArr []), (''url'', JStr ''b'')]) = Inr []"
  by (simp add: extractImageUrls_def)

section \<open>Properties of the configuration\<close>

lemma parseInt_examples:
  "parseInt ''30000'' = Fin 30000"
  "parseInt ''  -42px'' = Fin (- 42)"
  "parseInt ''abc'' = NaN"
  by (simp_all add: parseInt_def is_space_def is_digit_def digits_value_def digit_value_def)

lemma loadConfig_default:
  "env ''FAL_KEY'' = Some key \<Longrightarrow> key \<noteq> [] \<Longrightarrow> env ''FAL_TIMEOUT'' = None \<Longrightarrow>
   \<exists>dir. loadConfig env = Inr \<lparr>apiKey = key, timeout = Fin 120000, outputDir = dir\<rparr>"
  by (simp add: loadConfig_def Let_def)

lemma loadConfig_positive_or_NaN:
  "loadConfig env = Inr cfg \<Longrightarrow> positive (timeout cfg) \<or> timeout cfg = NaN"
  by (cases "timeout cfg") (auto simp: loadConfig_def Let_def split: option.splits if_splits)

text \<open>
  C8. With \<^verbatim>\<open>FAL_TIMEOUT=abc\<close> the configuration is loaded, and its timeout is NaN,
  which is no positive number: \<^verbatim>\<open>NaN <= 0\<close> is false, so the check of line 55 lets it pass.
\<close>

theorem loadConfig_accepts_NaN_timeout:
  "loadConfig [''FAL_KEY'' \<mapsto> ''k'', ''FAL_TIMEOUT'' \<mapsto> ''abc''] =
     Inr \<lparr>apiKey = ''k'', timeout = NaN, outputDir = ''./generated-media''\<rparr>
   \<and> \<not> positive NaN"
  by (simp add: loadConfig_def parseInt_def is_space_def is_digit_def)

section \<open>Properties of the error classification\<close>

text \<open>
  C4. The rules of \<^verbatim>\<open>handleError\<close> in their precedence, the first that matches giving
  the one message: the timeout message; else invalid credentials on status 401 or 403;
  else the rate limit on 429; else the validation error on 422, with the upstream detail
  when it is truthy and the error's message otherwise; else the connection failure on
  the codes ENOTFOUND and ECONNREFUSED; else the fallback with the raw text of the error.
\<close>

theorem handleError_precedence:
  "(err_message e = ''Request timeout'' \<longrightarrow> err_message (handleError w e) = timeout_text)
   \<and> (err_message e \<noteq> ''Request timeout'' \<longrightarrow>
        (err_status e = JNum (Fin 401) \<or> err_status e = JNum (Fin 403) \<longrightarrow>
           err_message (handleError w e) =
             ''Invalid fal.ai API key. Please check your FAL_KEY environment variable.'')
      \<and> (err_status e = JNum (Fin 429) \<longrightarrow>
           err_message (handleError w e) =
             ''fal.ai rate limit exceeded. Please wait a moment and try again.'')
      \<and> (err_status e = JNum (Fin 422) \<longrightarrow>
           err_message (handleError w e) =
             ''fal.ai validation error: '' @
               (if truthy (opt_member (err_body e) ''detail'')
                then to_string (number_text w) (opt_member (err_body e) ''detail'')
                else err_message e))
      \<and> (err_status e \<notin> {JNum (Fin 401), JNum (Fin 403), JNum (Fin 429), JNum (Fin 422)} \<longrightarrow>
           (err_code e = JStr ''ENOTFOUND'' \<or> err_code e = JStr ''ECONNREFUSED'' \<longrightarrow>
              err_message (handleError w e) =
                ''Failed to connect to fal.ai API: '' @ err_message e)
         \<and> (err_code e \<notin> {JStr ''ENOTFOUND'', JStr ''ECONNREFUSED''} \<longrightarrow>
              err_message (handleError w e) =
                ''fal.ai API error: '' @
                  (if err_message e \<noteq> [] then err_message e else error_toString e))))"
  by (simp add: handleError_def new_Error_def js_or_def)

theorem handleError_precedence_witness:
  "err_message (handleError (example_world Pending)
      \<lparr>err_name = ''Error'', err_message = ''Request timeout'', err_status = JNum (Fin 401),
       err_code = JStr ''ENOTFOUND'', err_body = JUndefined\<rparr>) = timeout_text
   \<and> err_message (handleError (example_world Pending)
      \<lparr>err_name = ''ApiError'', err_message = ''Forbidden'', err_status = JNum (Fin 403),
       err_code = JStr ''ECONNREFUSED'', err_body = JUndefined\<rparr>) =
     ''Invalid fal.ai API key. Please check your FAL_KEY environment variable.''
   \<and> err_message (handleError (example_world Pending)
      \<lparr>err_name = ''ApiError'', err_message = ''Too Many Requests'',
       err_status = JNum (Fin 429), err_code = JStr ''ENOTFOUND'', err_body = JUndefined\<rparr>) =
     ''fal.ai rate limit exceeded. Please wait a moment and try again.''
   \<and> err_message (handleError (example_world Pending)
      \<lparr>err_name = ''ValidationError'', err_message = ''Unprocessable Entity'',
       err_status = JNum (Fin 422), err_code = JStr ''ENOTFOUND'',
       err_body = JObj [(''detail'', JStr ''prompt is too long'')]\<rparr>) =
     ''fal.ai validation error: prompt is too long''
   \<and> err_message (handleError (example_world Pending)
      \<lparr>err_name = ''ValidationError'', err_message = ''Unprocessable Entity'',
       err_status = JNum (Fin 422), err_code = JUndefined, err_body = JUndefined\<rparr>) =
     ''fal.ai validation error: Unprocessable Entity''
   \<and> err_message (handleError (example_world Pending)
      \<lparr>err_name = ''Error'', err_message = ''getaddrinfo ENOTFOUND fal.run'',
       err_status = JUndefined, err_code = JStr ''ENOTFOUND'', err_body = JUndefined\<rparr>) =
     ''Failed to connect to fal.ai API: getaddrinfo ENOTFOUND fal.run''
   \<and> err_message (handleError (example_world Pending)
      \<lparr>err_name = ''Error'', err_message = ''Unknown tool: paint'', err_status = JUndefined,
       err_code = JUndefined, err_body = JUndefined\<rparr>) =
     ''fal.ai API error: Unknown tool: paint''"
  using
    handleError_precedence [of "\<lparr>err_name = ''Error'', err_message = ''Request timeout'',
         err_status = JNum (Fin 401), err_code = JStr ''ENOTFOUND'', err_body = JUndefined\<rparr>"
       "example_world Pending"]
    handleError_precedence [of "\<lparr>err_name = ''ApiError'', err_message = ''Forbidden'',
         err_status = JNum (Fin 403), err_code = JStr ''ECONNREFUSED'', err_body = JUndefined\<rparr>"
       "example_world Pending"]
    handleError_precedence [of "\<lparr>err_name = ''ApiError'', err_message = ''Too Many Requests'',
         err_status = JNum (Fin 429), err_code = JStr ''ENOTFOUND'', err_body = JUndefined\<rparr>"
       "example_world Pending"]
    handleError_precedence [of "\<lparr>err_name = ''ValidationError'',
         err_message = ''Unprocessable Entity'',
         err_status = JNum (Fin 422), err_code = JStr ''ENOTFOUND'',
         err_body = JObj [(''detail'', JStr ''prompt is too long'')]\<rparr>"
       "example_world Pending"]
    handleError_precedence [of "\<lparr>err_name = ''ValidationError'',
         err_message = ''Unprocessable Entity'',
         err_status = JNum (Fin 422), err_code = JUndefined, err_body = JUndefined\<rparr>"
       "example_world Pending"]
    handleError_precedence [of "\<lparr>err_name = ''Error'',
         err_message = ''getaddrinfo ENOTFOUND fal.run'',
         err_status = JUndefined, err_code = JStr ''ENOTFOUND'', err_body = JUndefined\<rparr>"
       "example_world Pending"]
    handleError_precedence [of "\<lparr>err_name = ''Error'', err_message = ''Unknown tool: paint'',
         err_status = JUndefined, err_code = JUndefined, err_body = JUndefined\<rparr>"
       "example_world Pending"]
  by (simp add: opt_member_def)

section \<open>Properties of the dispatcher\<close>

lemmas client_method_defs =
  generateImage_def editImage_def imageToImage_def inpaint_def styleTransfer_def
  textToVideo_def imageToVideo_def lipsync_def avatarVideo_def upscaleImage_def
  upscaleVideo_def removeBackground_def removeVideoBackground_def faceSwapImage_def
  faceSwapVideo_def segmentImage_def estimateDepth_def generateMusic_def textToSpeech_def
  generateSoundEffect_def imageTo3D_def retexture3D_def

lemmas eval_defs =
  handle_call_def switch_def run_case_def download_case_def inspect_case_def zparse_def
  zod_issues_def shape_issues_def apiInput_of_def race_def run_def runLong_def
  downloadFile_def getAutoSavePath_def one_url_def example_world_def example_config_def
  createFalClient_def no_effects_def Let_def

text \<open>Every client method is one race, against the base timeout or five times it.\<close>

lemma tool_method_race:
  "map_of tool_cases name = Some tc \<Longrightarrow>
   \<exists>model d. \<forall>input s. tc_method tc w c input s = race w model input d s"
  apply (simp add: tool_cases_def split: if_splits)
  apply (auto simp: client_method_defs run_def runLong_def)
  apply blast+
  done

lemma race_effects:
  assumes "race w model input d s = (r, s1)"
  shows "calls s1 = calls s @ [(model, input, d)] \<and> written s1 = written s"
  using assms by (auto simp: race_def)

lemma downloadFile_effects:
  assumes "downloadFile w url file s = (r, s')"
  shows "calls s' = calls s \<and>
    (case r of
       Inl e \<Rightarrow> written s' = written s
     | Inr p \<Rightarrow> p = file \<and> (\<exists>buffer. written s' = written s @ [(file, buffer)]))"
  using assms
  by (auto simp: downloadFile_def Let_def split: option.splits sum.splits if_splits)

lemma required_issue:
  assumes "(k, t, False) \<in> set sh" and "member (JObj fs) k = JUndefined"
  shows "Required k \<in> set (shape_issues sh (JObj fs))"
proof -
  have "field_issues k t False (member (JObj fs) k) = [Required k]"
    using assms(2) by simp
  then show ?thesis
    unfolding shape_issues_def using assms(1) by force
qed

lemma missing_required_issues:
  assumes "(k, t, False) \<in> set sh" and "member args k = JUndefined"
  shows "zod_issues sh args \<noteq> []"
proof (cases args)
  case (JObj fs)
  with assms have "Required k \<in> set (shape_issues sh (JObj fs))"
    by (simp add: required_issue)
  with JObj show ?thesis by (auto simp: zod_issues_def)
qed (simp_all add: zod_issues_def)

lemma run_case_invalid:
  assumes "zod_issues (tc_schema tc) args \<noteq> []"
  shows "run_case w cfg c tc args s = (Inl (ZodError w (zod_issues (tc_schema tc) args)), s)"
  using assms
  by (cases "tc_body tc")
     (simp_all add: run_case_def download_case_def inspect_case_def zparse_def)

lemma handle_call_state:
  "snd (handle_call w cfg c name args s) = snd (switch w cfg c name args s)"
  by (simp add: handle_call_def split: prod.splits sum.splits)

lemma switch_known:
  "map_of tool_cases name = Some tc \<Longrightarrow>
   switch w cfg c name args s = run_case w cfg c tc args s"
  by (simp add: switch_def)

text \<open>
  C5. Whatever the operation, an argument bag in which a required field of its schema is
  missing is answered with the error flag and the classified validation error, and the
  effects are those before the call: no upstream call was made, nothing was fetched and
  nothing was written.
\<close>

theorem missing_required_field_no_upstream_call:
  assumes "map_of tool_cases name = Some tc"
    and "(k, t, False) \<in> set (tc_schema tc)"
    and "member args k = JUndefined"
  shows "handle_call w cfg c name args s =
     (\<lparr>content_text =
         err_message (handleError w (ZodError w (zod_issues (tc_schema tc) args))),
       isError = True\<rparr>, s)
     \<and> zod_issues (tc_schema tc) args \<noteq> []"
proof -
  have "zod_issues (tc_schema tc) args \<noteq> []"
    using assms(2,3) by (rule missing_required_issues)
  then show ?thesis
    using assms(1) by (simp add: handle_call_def switch_def run_case_invalid)
qed

theorem missing_required_field_no_upstream_call_witness:
  "handle_call (example_world Pending) example_config (createFalClient example_config)
     ''generate_image'' (JObj [(''image_size'', JStr ''square'')]) no_effects =
   (\<lparr>content_text = ''fal.ai API error: invalid arguments'', isError = True\<rparr>, no_effects)"
  using missing_required_field_no_upstream_call
    [of "''generate_image''" _ "''prompt''" "ZString [ZMin 1]"
      "JObj [(''image_size'', JStr ''square'')]" "example_world Pending" example_config
      "createFalClient example_config" no_effects]
  by (simp add: tool_cases_def generate_image_shape_def example_world_def handleError_def
      ZodError_def new_Error_def)

lemma download_case_calls:
  assumes "zparse w sh args = Inr input"
    and "\<forall>input s. m input s = race w model input d s"
  shows "calls (snd (download_case w cfg sh m ex none prefix ext saved args s)) =
     calls s @ [(model, apiInput_of input, d)]"
  using assms
  by (auto simp: download_case_def Let_def split: prod.splits sum.splits list.splits
      dest!: race_effects downloadFile_effects)

lemma inspect_case_calls:
  assumes "zparse w sh args = Inr input"
    and "\<forall>input s. m input s = race w model input d s"
  shows "calls (snd (inspect_case w sh m ex args s)) = calls s @ [(model, apiInput_of input, d)]"
  using assms
  by (auto simp: inspect_case_def Let_def split: prod.splits sum.splits list.splits
      dest!: race_effects downloadFile_effects)

text \<open>
  C9. Whatever the operation, once the arguments are validated the invocation makes one
  upstream call, and the record it forwards is the validated record without
  \<^verbatim>\<open>save_path\<close>: every other field is there, unchanged and in its place.
\<close>

theorem save_path_not_forwarded:
  assumes "map_of tool_cases name = Some tc"
    and "zparse w (tc_schema tc) args = Inr input"
  shows "\<exists>model forwarded d.
     calls (snd (handle_call w cfg c name args s)) = calls s @ [(model, forwarded, d)]
     \<and> forwarded = filter (\<lambda>(k, v). k \<noteq> ''save_path'') input
     \<and> map_of forwarded ''save_path'' = None
     \<and> (\<forall>k. k \<noteq> ''save_path'' \<longrightarrow> map_of forwarded k = map_of input k)"
proof -
  obtain model d where m: "\<forall>input s. tc_method tc w c input s = race w model input d s"
    using tool_method_race [OF assms(1)] by blast
  have "calls (snd (run_case w cfg c tc args s)) = calls s @ [(model, apiInput_of input, d)]"
    by (cases "tc_body tc")
       (simp_all add: run_case_def download_case_calls [OF assms(2) m]
          inspect_case_calls [OF assms(2) m])
  then have "calls (snd (handle_call w cfg c name args s)) =
      calls s @ [(model, apiInput_of input, d)]"
    using assms(1) by (simp add: handle_call_state switch_known)
  moreover have "map_of (apiInput_of input) ''save_path'' = None"
    unfolding apiInput_of_def by (induction input) auto
  moreover have "\<forall>k. k \<noteq> ''save_path'' \<longrightarrow> map_of (apiInput_of input) k = map_of input k"
    unfolding apiInput_of_def by (induction input) auto
  ultimately show ?thesis
    unfolding apiInput_of_def by blast
qed

lemma edit_image_case:
  "map_of tool_cases ''edit_image'' =
     Some \<lparr>tc_schema = edit_image_shape, tc_method = editImage, tc_extract = extractImageUrls,
       tc_body = Download (Fail ''No edited image was generated. Try rephrasing your prompt.'')
         ''edited'' png (\<lambda>ns. saved_to ''Edited image saved to: '')\<rparr>"
  by (simp add: tool_cases_def)

theorem save_path_not_forwarded_witness:
  "calls (snd (handle_call (example_world Pending) example_config
      (createFalClient example_config) ''edit_image''
      (JObj [(''prompt'', JStr ''add a hat''), (''image_url'', JStr ''http://in/a.png''),
             (''save_path'', JStr ''out/a.png''), (''extra'', JBool True)]) no_effects)) =
   [(''fal-ai/flux-pro/kontext/max'',
     [(''prompt'', JStr ''add a hat''), (''image_url'', JStr ''http://in/a.png'')],
     Fin 120000)]"
proof -
  have "zparse (example_world Pending) edit_image_shape
      (JObj [(''prompt'', JStr ''add a hat''), (''image_url'', JStr ''http://in/a.png''),
             (''save_path'', JStr ''out/a.png''), (''extra'', JBool True)]) =
    Inr [(''prompt'', JStr ''add a hat''), (''image_url'', JStr ''http://in/a.png''),
         (''save_path'', JStr ''out/a.png'')]"
    by (simp add: zparse_def zod_issues_def shape_issues_def edit_image_shape_def)
  from save_path_not_forwarded [OF edit_image_case, of "example_world Pending", simplified,
      OF this, of example_config "createFalClient example_config" no_effects]
  show ?thesis
    by (simp add: eval_defs edit_image_case edit_image_shape_def editImage_def EDIT_IMAGE_def)
qed

text \<open>
  Which delay each case gives its timer: five times the base timeout for the video
  operations, \<^verbatim>\<open>generate_music\<close> and the 3D operations, the base timeout for all others.
\<close>

lemma tool_timeout_class:
  "map_of tool_cases name = Some tc \<Longrightarrow>
   \<exists>model. \<forall>input s. tc_method tc w c input s =
     race w model input
       (if name \<in> set [''text_to_video'', ''image_to_video'', ''lipsync'', ''avatar_video'',
             ''upscale_video'', ''remove_video_background'', ''face_swap_video'',
             ''generate_music'', ''image_to_3d'', ''retexture_3d'']
        then js_times (client_timeout c) 5 else client_timeout c) s"
  apply (simp add: tool_cases_def split: if_splits)
  apply (auto simp: client_method_defs run_def runLong_def)
  done

text \<open>
  C2. \<^verbatim>\<open>text_to_speech\<close> and \<^verbatim>\<open>generate_sound_effect\<close>, two of the three audio
  operations, are raced against the base timeout, where the specification and the README
  have the audio operations raced against five times it, as \<^verbatim>\<open>generate_music\<close> is.
\<close>

theorem speech_and_sound_effect_use_base_timeout:
  "calls (snd (handle_call w cfg c ''text_to_speech'' (JObj [(''text'', JStr ''hello'')])
      no_effects)) =
     [(''fal-ai/minimax-speech/text-to-speech-02-hd'', [(''text'', JStr ''hello'')],
       client_timeout c)]
   \<and> calls (snd (handle_call w cfg c ''generate_sound_effect''
      (JObj [(''prompt'', JStr ''rain'')]) no_effects)) =
     [(''fal-ai/stable-audio'', [(''prompt'', JStr ''rain'')], client_timeout c)]
   \<and> calls (snd (handle_call w cfg c ''generate_music''
      (JObj [(''prompt'', JStr ''calm piano'')]) no_effects)) =
     [(''fal-ai/beatoven/music-generation'', [(''prompt'', JStr ''calm piano'')],
       js_times (client_timeout c) 5)]"
proof -
  have 1: "zparse w text_to_speech_shape (JObj [(''text'', JStr ''hello'')]) =
      Inr [(''text'', JStr ''hello'')]"
    by (simp add: zparse_def zod_issues_def shape_issues_def text_to_speech_shape_def)
  have 2: "zparse w generate_sound_effect_shape (JObj [(''prompt'', JStr ''rain'')]) =
      Inr [(''prompt'', JStr ''rain'')]"
    by (simp add: zparse_def zod_issues_def shape_issues_def generate_sound_effect_shape_def)
  have 3: "zparse w generate_music_shape (JObj [(''prompt'', JStr ''calm piano'')]) =
      Inr [(''prompt'', JStr ''calm piano'')]"
    by (simp add: zparse_def zod_issues_def shape_issues_def generate_music_shape_def)
  have a: "\<forall>input s. textToSpeech w c input s =
      race w TEXT_TO_SPEECH input (client_timeout c) s"
    by (simp add: textToSpeech_def run_def)
  have b: "\<forall>input s. generateSoundEffect w c input s =
      race w SOUND_EFFECT input (client_timeout c) s"
    by (simp add: generateSoundEffect_def run_def)
  have c: "\<forall>input s. generateMusic w c input s =
      race w GENERATE_MUSIC input (js_times (client_timeout c) 5) s"
    by (simp add: generateMusic_def runLong_def)
  show ?thesis
    by (simp add: handle_call_state switch_def tool_cases_def run_case_def
        download_case_calls [OF 1 a] download_case_calls [OF 2 b] download_case_calls [OF 3 c]
        apiInput_of_def no_effects_def TEXT_TO_SPEECH_def SOUND_EFFECT_def GENERATE_MUSIC_def)
qed

lemma run_case_none:
  assumes "zparse w (tc_schema tc) args = Inr input"
    and "tc_method tc w c (apiInput_of input) s = (Inr dat, s1)"
    and "tc_extract tc dat = Inr []"
  shows "run_case w cfg c tc args s =
     (Inr (case tc_body tc of
             Download none prefix ext saved \<Rightarrow> none_reply w none dat
           | Inspect \<Rightarrow>
               \<lparr>content_text = ''Segmentation complete.'' @ newline @ newline @ ''Raw result:''
                  @ newline @ json_stringify w dat, isError = False\<rparr>), s1)"
  using assms
  by (cases "tc_body tc") (simp_all add: run_case_def download_case_def inspect_case_def)

text \<open>
  C1, as the code has it. When the arguments are valid, the upstream call resolves and
  the extractor finds no locator, nothing is downloaded; \<^verbatim>\<open>segment_image\<close>,
  \<^verbatim>\<open>estimate_depth\<close>, the three audio operations and the two 3D operations answer with
  success, the text a heading followed by the raw payload serialized, and the fifteen
  other operations answer with the error flag and the message of their case.
\<close>

theorem no_locator_response:
  assumes "map_of tool_cases name = Some tc"
    and "zparse w (tc_schema tc) args = Inr input"
    and "tc_method tc w c (apiInput_of input) s = (Inr dat, s1)"
    and "tc_extract tc dat = Inr []"
  shows "snd (handle_call w cfg c name args s) = s1 \<and>
    (if name \<in> set [''segment_image'', ''estimate_depth'', ''generate_music'',
        ''text_to_speech'', ''generate_sound_effect'', ''image_to_3d'', ''retexture_3d'']
     then \<not> isError (fst (handle_call w cfg c name args s)) \<and>
       (\<exists>heading. content_text (fst (handle_call w cfg c name args s)) =
          heading @ json_stringify w dat)
     else isError (fst (handle_call w cfg c name args s)) \<and>
       (\<exists>prefix ext saved. tc_body tc =
          Download (Fail (content_text (fst (handle_call w cfg c name args s))))
            prefix ext saved))"
proof -
  have "handle_call w cfg c name args s =
     (case tc_body tc of
        Download none prefix ext saved \<Rightarrow> none_reply w none dat
      | Inspect \<Rightarrow>
          \<lparr>content_text = ''Segmentation complete.'' @ newline @ newline @ ''Raw result:''
             @ newline @ json_stringify w dat, isError = False\<rparr>, s1)"
    using assms(1) run_case_none [OF assms(2,3,4)]
    by (simp add: handle_call_def switch_known)
  then show ?thesis
    using assms(1) by (auto simp: tool_cases_def split: if_splits)
qed

lemma generate_image_case:
  "map_of tool_cases ''generate_image'' =
     Some \<lparr>tc_schema = generate_image_shape, tc_method = generateImage,
       tc_extract = extractImageUrls,
       tc_body = Download (Fail ''No image was generated. Try rephrasing your prompt.'')
         ''generated'' format_or_png generated_text\<rparr>"
  by (simp add: tool_cases_def)

lemma image_to_3d_case:
  "map_of tool_cases ''image_to_3d'' =
     Some \<lparr>tc_schema = image_to_3d_shape, tc_method = imageTo3D,
       tc_extract = one_url extract3DUrl,
       tc_body = Download (Raw (''3D generation result:'' @ newline))
         ''model'' glb (\<lambda>ns. saved_to ''3D model saved to: '')\<rparr>"
  by (simp add: tool_cases_def)

theorem no_locator_response_witness:
  "handle_call (example_world (Resolved (JObj [(''images'', JArr [])]))) example_config
     (createFalClient example_config) ''generate_image''
     (JObj [(''prompt'', JStr ''a cat'')]) no_effects =
   (\<lparr>content_text = ''No image was generated. Try rephrasing your prompt.'',
     isError = True\<rparr>,
    \<lparr>calls = [(''fal-ai/flux-pro/kontext/max/text-to-image'', [(''prompt'', JStr ''a cat'')],
       Fin 120000)], fetched = [], mkdirs = [], written = []\<rparr>)
   \<and> handle_call (example_world (Resolved (JObj [(''task_id'', JStr ''t1'')]))) example_config
     (createFalClient example_config) ''image_to_3d''
     (JObj [(''image_url'', JStr ''http://in/a.png'')]) no_effects =
   (\<lparr>content_text = ''3D generation result:'' @ newline @ ''{}'', isError = False\<rparr>,
    \<lparr>calls = [(''fal-ai/tripo3d/v2'', [(''image_url'', JStr ''http://in/a.png'')],
       Fin 600000)], fetched = [], mkdirs = [], written = []\<rparr>)"
proof -
  let ?w1 = "example_world (Resolved (JObj [(''images'', JArr [])]))"
  let ?w2 = "example_world (Resolved (JObj [(''task_id'', JStr ''t1'')]))"
  let ?c = "createFalClient example_config"
  let ?s1 = "\<lparr>calls = [(''fal-ai/flux-pro/kontext/max/text-to-image'',
      [(''prompt'', JStr ''a cat'')], Fin 120000)], fetched = [], mkdirs = [], written = []\<rparr>"
  let ?s2 = "\<lparr>calls = [(''fal-ai/tripo3d/v2'', [(''image_url'', JStr ''http://in/a.png'')],
       Fin 600000)], fetched = [], mkdirs = [], written = []\<rparr>"
  have p1: "zparse ?w1 generate_image_shape (JObj [(''prompt'', JStr ''a cat'')]) =
      Inr [(''prompt'', JStr ''a cat'')]"
    by (simp add: zparse_def zod_issues_def shape_issues_def generate_image_shape_def)
  have m1: "generateImage ?w1 ?c (apiInput_of [(''prompt'', JStr ''a cat'')]) no_effects =
      (Inr (JObj [(''images'', JArr [])]), ?s1)"
    by (simp add: generateImage_def TEXT_TO_IMAGE_def eval_defs)
  have x1: "extractImageUrls (JObj [(''images'', JArr [])]) = Inr []"
    by (simp add: extractImageUrls_def)
  have p2: "zparse ?w2 image_to_3d_shape (JObj [(''image_url'', JStr ''http://in/a.png'')]) =
      Inr [(''image_url'', JStr ''http://in/a.png'')]"
    by (simp add: zparse_def zod_issues_def shape_issues_def image_to_3d_shape_def)
  have m2: "imageTo3D ?w2 ?c (apiInput_of [(''image_url'', JStr ''http://in/a.png'')])
      no_effects = (Inr (JObj [(''task_id'', JStr ''t1'')]), ?s2)"
    by (simp add: imageTo3D_def IMAGE_TO_3D_def eval_defs)
  have x2: "one_url extract3DUrl (JObj [(''task_id'', JStr ''t1'')]) = Inr []"
    by (simp add: one_url_def extract3DUrl_def opt_member_def)
  from no_locator_response [OF generate_image_case, simplified, OF p1 m1 x1, of example_config]
       no_locator_response [OF image_to_3d_case, simplified, OF p2 m2 x2, of example_config]
  show ?thesis
    by (simp add: eval_defs tool_cases_def generate_image_shape_def generateImage_def
        TEXT_TO_IMAGE_def extractImageUrls_def image_to_3d_shape_def imageTo3D_def
        IMAGE_TO_3D_def extract3DUrl_def opt_member_def)
qed

text \<open>
  Against C1 as stated: \<^verbatim>\<open>generate_music\<close> is an audio generation operation, the
  extractor finds no locator in the empty payload, and the answer is a success.
\<close>

theorem audio_no_locator_is_success:
  "extractAudioUrl (JObj []) = Inr JNull \<and>
   handle_call (example_world (Resolved (JObj []))) example_config
     (createFalClient example_config) ''generate_music''
     (JObj [(''prompt'', JStr ''calm piano'')]) no_effects =
   (\<lparr>content_text = ''Music generation result:'' @ newline @ ''{}'', isError = False\<rparr>,
    \<lparr>calls = [(''fal-ai/beatoven/music-generation'', [(''prompt'', JStr ''calm piano'')],
       Fin 600000)], fetched = [], mkdirs = [], written = []\<rparr>)"
  by (simp add: eval_defs tool_cases_def generate_music_shape_def generateMusic_def
      GENERATE_MUSIC_def extractAudioUrl_def opt_member_def)

lemma download_case_written:
  assumes "\<forall>input s. m input s = race w model input d s"
    and "download_case w cfg sh m ex none prefix ext saved args s = (r, s')"
  shows "(\<exists>input buffer. zparse w sh args = Inr input \<and>
            written s' = written s @
              [(if truthy (member (JObj input) ''save_path'')
                then string_of (member (JObj input) ''save_path'')
                else getAutoSavePath w cfg prefix (ext input), buffer)] \<and>
            (\<exists>reply. r = Inr reply \<and> \<not> isError reply))
       \<or> (written s' = written s \<and>
            (\<forall>reply. r = Inr reply \<longrightarrow>
               (\<exists>input dat s1. zparse w sh args = Inr input \<and>
                  m (apiInput_of input) s = (Inr dat, s1) \<and> ex dat = Inr [] \<and>
                  reply = none_reply w none dat)))"
  using assms
  by (auto simp: download_case_def Let_def split: prod.splits sum.splits list.splits
      dest!: race_effects downloadFile_effects)

lemma inspect_case_written:
  assumes "\<forall>input s. m input s = race w model input d s"
    and "inspect_case w sh m ex args s = (r, s')"
  shows "(\<exists>input buffer. zparse w sh args = Inr input \<and>
            truthy (member (JObj input) ''save_path'') \<and>
            written s' = written s @ [(string_of (member (JObj input) ''save_path''), buffer)])
       \<or> (written s' = written s \<and>
            (\<forall>reply. r = Inr reply \<longrightarrow>
               (\<exists>input dat s1 urls. zparse w sh args = Inr input \<and>
                  m (apiInput_of input) s = (Inr dat, s1) \<and> ex dat = Inr urls \<and>
                  (urls = [] \<or> \<not> truthy (member (JObj input) ''save_path'')))))"
  using assms
  by (auto simp: inspect_case_def Let_def split: prod.splits sum.splits list.splits if_splits
      dest!: race_effects downloadFile_effects)

lemma switch_written:
  assumes "switch w cfg c name args s = (r, s')"
  shows "(\<exists>tc input file buffer. map_of tool_cases name = Some tc \<and>
            zparse w (tc_schema tc) args = Inr input \<and>
            written s' = written s @ [(file, buffer)] \<and>
            (if truthy (member (JObj input) ''save_path'')
             then file = string_of (member (JObj input) ''save_path'')
             else \<exists>none prefix ext saved. tc_body tc = Download none prefix ext saved \<and>
                    file = getAutoSavePath w cfg prefix (ext input)))
    \<or> (written s' = written s \<and>
         (\<forall>reply. r = Inr reply \<and> \<not> isError reply \<longrightarrow>
            name \<in> set [''segment_image'', ''estimate_depth'', ''generate_music'',
              ''text_to_speech'', ''generate_sound_effect'', ''image_to_3d'', ''retexture_3d'']
            \<and> (\<exists>tc input dat s1 urls. map_of tool_cases name = Some tc \<and>
                 zparse w (tc_schema tc) args = Inr input \<and>
                 tc_method tc w c (apiInput_of input) s = (Inr dat, s1) \<and>
                 tc_extract tc dat = Inr urls \<and>
                 (urls = [] \<or>
                  name = ''segment_image'' \<and> \<not> truthy (member (JObj input) ''save_path'')))))"
proof (cases "map_of tool_cases name")
  case None
  with assms show ?thesis by (auto simp: switch_def)
next
  case (Some tc)
  obtain model d where m: "\<forall>input s. tc_method tc w c input s = race w model input d s"
    using tool_method_race [OF Some] by blast
  have r: "run_case w cfg c tc args s = (r, s')"
    using assms Some by (simp add: switch_known)
  show ?thesis
  proof (cases "tc_body tc")
    case Inspect
    with r have "inspect_case w (tc_schema tc) (tc_method tc w c) (tc_extract tc) args s
        = (r, s')"
      by (simp add: run_case_def)
    note wr = inspect_case_written [OF m this]
    have "name = ''segment_image''"
      using Some Inspect by (auto simp: tool_cases_def split: if_splits)
    with wr Some show ?thesis
      by fastforce
  next
    case (Download none prefix ext saved)
    with r have "download_case w cfg (tc_schema tc) (tc_method tc w c) (tc_extract tc)
        none prefix ext (saved (number_text w)) args s = (r, s')"
      by (simp add: run_case_def)
    note wr = download_case_written [OF m this]
    have raw: "name \<in> set [''segment_image'', ''estimate_depth'', ''generate_music'',
              ''text_to_speech'', ''generate_sound_effect'', ''image_to_3d'', ''retexture_3d'']"
      if "none = Raw heading" for heading
      using that Some Download by (auto simp: tool_cases_def split: if_splits)
    show ?thesis
    proof (cases none)
      case (Fail msg)
      with wr Some Download show ?thesis by fastforce
    next
      case (Raw heading)
      from raw [OF Raw] wr Some Download show ?thesis
        by fastforce
    qed
  qed
qed

text \<open>
  C3, as the code has it. An invocation writes one file or none, never more, and the
  file is at \<^verbatim>\<open>save_path\<close> when that is given and not empty, else at the automatic
  path of the case. A success comes with exactly one file written, except where no
  locator was extracted, which only \<^verbatim>\<open>segment_image\<close>, \<^verbatim>\<open>estimate_depth\<close>, the audio
  and the 3D operations answer with success, and except \<^verbatim>\<open>segment_image\<close> called with
  no \<^verbatim>\<open>save_path\<close>: these successes write no file.
\<close>

theorem files_written_per_invocation:
  assumes "handle_call w cfg c name args s = (reply, s')"
  shows "(\<exists>tc input file buffer. map_of tool_cases name = Some tc \<and>
            zparse w (tc_schema tc) args = Inr input \<and>
            written s' = written s @ [(file, buffer)] \<and>
            (if truthy (member (JObj input) ''save_path'')
             then file = string_of (member (JObj input) ''save_path'')
             else \<exists>none prefix ext saved. tc_body tc = Download none prefix ext saved \<and>
                    file = getAutoSavePath w cfg prefix (ext input)))
    \<or> (written s' = written s \<and>
         (\<not> isError reply \<longrightarrow>
            name \<in> set [''segment_image'', ''estimate_depth'', ''generate_music'',
              ''text_to_speech'', ''generate_sound_effect'', ''image_to_3d'', ''retexture_3d'']
            \<and> (\<exists>tc input dat s1 urls. map_of tool_cases name = Some tc \<and>
                 zparse w (tc_schema tc) args = Inr input \<and>
                 tc_method tc w c (apiInput_of input) s = (Inr dat, s1) \<and>
                 tc_extract tc dat = Inr urls \<and>
                 (urls = [] \<or>
                  name = ''segment_image'' \<and> \<not> truthy (member (JObj input) ''save_path'')))))"
proof -
  obtain r where sw: "switch w cfg c name args s = (r, s')"
    using assms
    by (cases "switch w cfg c name args s") (auto simp: handle_call_def split: sum.splits)
  have "\<not> isError reply \<Longrightarrow> r = Inr reply"
    using assms sw by (auto simp: handle_call_def split: sum.splits)
  with switch_written [OF sw] show ?thesis by blast
qed

theorem files_written_per_invocation_witness:
  "handle_call
     (example_world
        (Resolved (JObj [(''images'', JArr [JObj [(''url'', JStr ''http://out/1.png'')]])])))
     example_config (createFalClient example_config) ''generate_image''
     (JObj [(''prompt'', JStr ''a cat'')]) no_effects =
   (\<lparr>content_text =
       ''Image generated and saved to: out/generated-2026-01-02T03-04-05-678Z.png'',
     isError = False\<rparr>,
    \<lparr>calls = [(''fal-ai/flux-pro/kontext/max/text-to-image'', [(''prompt'', JStr ''a cat'')],
       Fin 120000)],
     fetched = [JStr ''http://out/1.png''], mkdirs = [],
     written = [(''out/generated-2026-01-02T03-04-05-678Z.png'', [137, 80, 78, 71])]\<rparr>)"
proof -
  have e: "handle_call
     (example_world
        (Resolved (JObj [(''images'', JArr [JObj [(''url'', JStr ''http://out/1.png'')]])])))
     example_config (createFalClient example_config) ''generate_image''
     (JObj [(''prompt'', JStr ''a cat'')]) no_effects =
   (\<lparr>content_text =
       ''Image generated and saved to: out/generated-2026-01-02T03-04-05-678Z.png'',
     isError = False\<rparr>,
    \<lparr>calls = [(''fal-ai/flux-pro/kontext/max/text-to-image'', [(''prompt'', JStr ''a cat'')],
       Fin 120000)],
     fetched = [JStr ''http://out/1.png''], mkdirs = [],
     written = [(''out/generated-2026-01-02T03-04-05-678Z.png'', [137, 80, 78, 71])]\<rparr>)"
    by (simp add: eval_defs tool_cases_def generate_image_shape_def generateImage_def
        TEXT_TO_IMAGE_def extractImageUrls_def format_or_png_def generated_text_def
        image_entry_def js_or_def)
  from files_written_per_invocation [OF e] e show ?thesis by simp
qed

text \<open>
  Against C3 as stated: \<^verbatim>\<open>segment_image\<close> with no \<^verbatim>\<open>save_path\<close> answers with success
  and writes no file, though the payload holds a locator.
\<close>

theorem segment_image_success_without_file:
  "handle_call
     (example_world (Resolved (JObj [(''masks'', JArr []),
        (''image'', JObj [(''url'', JStr ''http://out/mask.png'')])])))
     example_config (createFalClient example_config) ''segment_image''
     (JObj [(''image_url'', JStr ''http://in/a.png'')]) no_effects =
   (\<lparr>content_text = ''Segmentation complete.'' @ newline @ newline @ ''Raw result:''
       @ newline @ ''{}'', isError = False\<rparr>,
    \<lparr>calls = [(''fal-ai/sam3'', [(''image_url'', JStr ''http://in/a.png'')], Fin 120000)],
     fetched = [], mkdirs = [], written = []\<rparr>)"
  by (simp add: eval_defs tool_cases_def segment_image_shape_def segmentImage_def
      SEGMENT_IMAGE_def extractImageUrls_def opt_member_def)

end
